theory Spec2Isabelle
  imports Main "HOL-Library.Multiset" "HOL-Library.Sublist"
begin

section \<open>The rolling buffer of the screen recorder\<close>

text \<open>
  The component \<open>AdvancedScreenRecorder\<close> keeps its rolling buffer in two refs,
  \<open>bufferChunksRef\<close> (an array of \<open>BufferChunk\<close>) and \<open>chunkIndexRef\<close> (the next
  index), beside React state (\<open>settings\<close>, \<open>backgroundRecording\<close>, \<open>videoURL\<close>, ...).
  Times are milliseconds as \<open>Date.now()\<close> returns them and are passed to each handler as
  the argument \<open>now\<close>. JavaScript numbers are modelled as \<open>int\<close>: timestamps and chunk
  indices are whole numbers far below \<open>2 ^ 53\<close>.
\<close>

subsection \<open>Data\<close>

datatype blob = Blob (bytes: "nat list") (mime: string)

definition size_of :: "blob \<Rightarrow> int" where
  "size_of b = int (length (bytes b))"

text \<open>\<open>new Blob(parts, { type })\<close> concatenates the parts.\<close>

definition new_Blob :: "blob list \<Rightarrow> string \<Rightarrow> blob" where
  "new_Blob parts ty = Blob (concat (map bytes parts)) ty"

record BufferChunk =
  data :: blob
  timestamp :: int
  index :: int

datatype screen_source = Screen | Window | Tab

datatype video_quality = Low | Medium | High | Ultra

record RecordingSettings =
  screenSource :: screen_source
  includeSystemAudio :: bool
  includeMicrophone :: bool
  videoQuality :: video_quality
  frameRate :: int
  audioBitrate :: int
  backgroundRecordingSetting :: bool
  bufferDuration :: int

text \<open>The key and the value of \<open>updateSettings(key, value)\<close>.\<close>

datatype setting =
    ScreenSource screen_source
  | IncludeSystemAudio bool
  | IncludeMicrophone bool
  | VideoQuality video_quality
  | FrameRate int
  | AudioBitrate int
  | BackgroundRecording bool
  | BufferDuration int

record toast =
  title :: string
  description :: string
  destructive :: bool

record media_stream =
  videoTracks :: nat
  audioTracks :: nat

datatype media_recorder = MediaRecorder media_stream "string option"

datatype object_url = ObjectURL blob

record recorder =
  backgroundRecording :: bool
  videoURL :: "object_url option"
  error :: "string option"
  bufferTime :: int
  bufferSize :: int
  settings :: RecordingSettings
  backgroundRecorderRef :: "media_recorder option"
  backgroundStreamRef :: "media_stream option"
  bufferChunksRef :: "BufferChunk list"
  chunkIndexRef :: int
  toasts :: "toast list"
  stoppedStreams :: "media_stream list"
  revokedURLs :: "object_url list"

subsection \<open>Eviction\<close>

text \<open>
  \<open>cleanupOldBufferChunks\<close> reads \<open>Date.now()\<close> and the \<open>settings\<close> bound in the
  closure it was created in (the value of the React state at that render); both are
  arguments here.
\<close>

definition maxAge :: "RecordingSettings \<Rightarrow> int" where
  "maxAge st = bufferDuration st * 60 * 1000"

definition cleanupOldBufferChunks :: "int \<Rightarrow> RecordingSettings \<Rightarrow> recorder \<Rightarrow> recorder" where
  "cleanupOldBufferChunks now st s =
     s\<lparr>bufferChunksRef := filter (\<lambda>chunk. now - timestamp chunk \<le> maxAge st) (bufferChunksRef s)\<rparr>"

subsection \<open>Ingestion\<close>

text \<open>
  The \<open>ondataavailable\<close> handler of the background recorder. \<open>event.data\<close> may be
  missing (\<open>None\<close>); \<open>event.data?.size || 0\<close> is then \<open>0\<close>.
\<close>

definition ondataavailable :: "int \<Rightarrow> blob option \<Rightarrow> recorder \<Rightarrow> recorder" where
  "ondataavailable now event_data s =
     (let size = (case event_data of None \<Rightarrow> 0 | Some d \<Rightarrow> size_of d) in
      case event_data of
        None \<Rightarrow> s
      | Some d \<Rightarrow>
          if size > 0 then
            let chunk = \<lparr>data = d, timestamp = now, index = chunkIndexRef s\<rparr>;
                s1 = s\<lparr>chunkIndexRef := chunkIndexRef s + 1\<rparr>;
                s2 = s1\<lparr>bufferChunksRef := bufferChunksRef s1 @ [chunk]\<rparr>
            in s2\<lparr>bufferSize := int (length (bufferChunksRef s2))\<rparr>
          else s)"

subsection \<open>Extraction\<close>

text \<open>Template literals render a number in decimal.\<close>

definition digit_char :: "nat \<Rightarrow> char" where
  "digit_char d = ''0123456789'' ! d"

fun string_of_nat :: "nat \<Rightarrow> string" where
  "string_of_nat n =
     (if n < 10 then [digit_char n] else string_of_nat (n div 10) @ [digit_char (n mod 10)])"

declare string_of_nat.simps [simp del]

definition number_to_string :: "int \<Rightarrow> string" where
  "number_to_string i = (if i < 0 then ''-'' @ string_of_nat (nat (- i)) else string_of_nat (nat i))"

text \<open>
  \<open>[...bufferChunksRef.current].sort((a, b) => a.index - b.index)\<close>: a stable sort of a
  copy, by index ascending.
\<close>

definition sortedChunks :: "BufferChunk list \<Rightarrow> BufferChunk list" where
  "sortedChunks chunks = sort_key index chunks"

definition chunksToUse :: "int \<Rightarrow> int option \<Rightarrow> BufferChunk list \<Rightarrow> BufferChunk list" where
  "chunksToUse now minutes chunks =
     (case minutes of
        None \<Rightarrow> sortedChunks chunks
      | Some m \<Rightarrow>
          (let cutoffTime = now - m * 60 * 1000
           in filter (\<lambda>chunk. timestamp chunk \<ge> cutoffTime) (sortedChunks chunks)))"

definition no_data_toast :: toast where
  "no_data_toast =
     \<lparr>title = ''No data available'', description = ''No recording data found in buffer.'',
      destructive = True\<rparr>"

definition not_enough_toast :: "int \<Rightarrow> toast" where
  "not_enough_toast m =
     \<lparr>title = ''No data available'',
      description = ''Not enough buffer data for '' @ number_to_string m @ '' minute(s).'',
      destructive = True\<rparr>"

definition capture_saved_toast :: "int option \<Rightarrow> toast" where
  "capture_saved_toast minutes =
     (let duration =
        (case minutes of
           None \<Rightarrow> ''all available buffer''
         | Some m \<Rightarrow> if m \<noteq> 0 then number_to_string m @ '' minute(s)'' else ''all available buffer'')
      in \<lparr>title = ''Capture saved'',
          description = ''Last '' @ duration @ '' captured successfully.'',
          destructive = False\<rparr>)"

definition captureLastMinutes :: "int \<Rightarrow> int option \<Rightarrow> recorder \<Rightarrow> recorder" where
  "captureLastMinutes now minutes s =
     (if length (bufferChunksRef s) = 0 then s\<lparr>toasts := toasts s @ [no_data_toast]\<rparr>
      else
        let used = chunksToUse now minutes (bufferChunksRef s) in
        case (minutes, length used = 0) of
          (Some m, True) \<Rightarrow> s\<lparr>toasts := toasts s @ [not_enough_toast m]\<rparr>
        | _ \<Rightarrow>
            let blobData = map data used;
                url = ObjectURL (new_Blob blobData ''video/webm'');
                s1 = (case videoURL s of
                        Some old \<Rightarrow> s\<lparr>revokedURLs := revokedURLs s @ [old]\<rparr>
                      | None \<Rightarrow> s)
            in s1\<lparr>videoURL := Some url, toasts := toasts s1 @ [capture_saved_toast minutes]\<rparr>)"

subsection \<open>Clearing, settings, the sweep timer\<close>

definition clearBuffer :: "recorder \<Rightarrow> recorder" where
  "clearBuffer s =
     s\<lparr>bufferChunksRef := [], chunkIndexRef := 0, bufferSize := 0, bufferTime := 0,
       toasts := toasts s @
         [\<lparr>title = ''Buffer cleared'', description = ''Recording buffer has been cleared.'',
           destructive = False\<rparr>]\<rparr>"

text \<open>\<open>{ ...prev, [key]: value }\<close>\<close>

fun apply_setting :: "setting \<Rightarrow> RecordingSettings \<Rightarrow> RecordingSettings" where
  "apply_setting (ScreenSource v) prev = prev\<lparr>screenSource := v\<rparr>"
| "apply_setting (IncludeSystemAudio v) prev = prev\<lparr>includeSystemAudio := v\<rparr>"
| "apply_setting (IncludeMicrophone v) prev = prev\<lparr>includeMicrophone := v\<rparr>"
| "apply_setting (VideoQuality v) prev = prev\<lparr>videoQuality := v\<rparr>"
| "apply_setting (FrameRate v) prev = prev\<lparr>frameRate := v\<rparr>"
| "apply_setting (AudioBitrate v) prev = prev\<lparr>audioBitrate := v\<rparr>"
| "apply_setting (BackgroundRecording v) prev = prev\<lparr>backgroundRecordingSetting := v\<rparr>"
| "apply_setting (BufferDuration v) prev = prev\<lparr>bufferDuration := v\<rparr>"

fun is_bufferDuration :: "setting \<Rightarrow> bool" where
  "is_bufferDuration (BufferDuration v) = True"
| "is_bufferDuration _ = False"

text \<open>
  \<open>updateSettings\<close> calls \<open>setSettings\<close>, which schedules the new settings for the next
  render, and then, in the same closure, \<open>cleanupOldBufferChunks()\<close>. The identifier
  \<open>settings\<close> that the cleanup reads is the constant of the current render, so the sweep
  runs with the settings as they were before the update; the update is visible in the
  state afterwards.
\<close>

definition updateSettings :: "int \<Rightarrow> setting \<Rightarrow> recorder \<Rightarrow> recorder" where
  "updateSettings now kv s =
     (let s1 = (if is_bufferDuration kv \<and> backgroundRecording s
                then cleanupOldBufferChunks now (settings s) s else s)
      in s1\<lparr>settings := apply_setting kv (settings s)\<rparr>)"

text \<open>
  The callback of the one-second interval set up when \<open>backgroundRecording\<close> becomes
  true. \<open>st\<close> is the \<open>settings\<close> of the render that created the interval.
\<close>

definition bufferTimerTick :: "int \<Rightarrow> RecordingSettings \<Rightarrow> recorder \<Rightarrow> recorder" where
  "bufferTimerTick now st s =
     cleanupOldBufferChunks now st
       (s\<lparr>bufferTime := bufferTime s + 1, bufferSize := int (length (bufferChunksRef s))\<rparr>)"

subsection \<open>Starting the background session\<close>

datatype js_error = JsError (err_name: string) (err_message: string)

text \<open>
  What the browser answers during \<open>startBackgroundRecording\<close>: the result of
  \<open>getDisplayMedia\<close>, whether each \<open>new MediaRecorder\<close> throws, whether
  \<open>mediaRecorder.start\<close> throws.
\<close>

record start_env =
  getDisplayMedia :: "js_error + media_stream"
  recorderWebm :: "js_error option"
  recorderDefault :: "js_error option"
  recorderStart :: "js_error option"

definition stop_stream :: "recorder \<Rightarrow> recorder" where
  "stop_stream s =
     (case backgroundStreamRef s of
        None \<Rightarrow> s
      | Some stream \<Rightarrow>
          s\<lparr>stoppedStreams := stoppedStreams s @ [stream], backgroundStreamRef := None\<rparr>)"

text \<open>The \<open>catch\<close> block of \<open>startBackgroundRecording\<close>.\<close>

definition start_failed :: "js_error \<Rightarrow> recorder \<Rightarrow> recorder" where
  "start_failed err s =
     (let errorMessage =
        (if err_name err = ''NotAllowedError'' then ''Permission denied. Please allow screen sharing.''
         else if err_name err = ''NotSupportedError''
           then ''Screen recording not supported in this browser.''
         else if err_message err \<noteq> [] then ''Error: '' @ err_message err
         else ''Failed to start background recording'')
      in stop_stream (s\<lparr>error := Some errorMessage, backgroundRecording := False\<rparr>))"

definition startBackgroundRecording :: "start_env \<Rightarrow> recorder \<Rightarrow> recorder" where
  "startBackgroundRecording env s =
     (let s0 = s\<lparr>error := None\<rparr>;
          s1 = s0\<lparr>bufferChunksRef := [], chunkIndexRef := 0, bufferTime := 0, bufferSize := 0\<rparr>
      in case getDisplayMedia env of
           Inl err \<Rightarrow> start_failed err s1
         | Inr displayStream \<Rightarrow>
             (let s2 = s1\<lparr>backgroundStreamRef := Some displayStream\<rparr> in
              case (case recorderWebm env of
                      None \<Rightarrow> Inr (MediaRecorder displayStream (Some ''video/webm''))
                    | Some e \<Rightarrow>
                        (case recorderDefault env of
                           None \<Rightarrow> Inr (MediaRecorder displayStream None)
                         | Some e' \<Rightarrow> Inl e')) of
                Inl err \<Rightarrow> start_failed err s2
              | Inr mediaRecorder \<Rightarrow>
                  (let s3 = s2\<lparr>backgroundRecorderRef := Some mediaRecorder\<rparr> in
                   if videoTracks displayStream = 0
                   then start_failed
                          (JsError ''TypeError''
                             ''Cannot set properties of undefined (setting 'onended')'') s3
                   else case recorderStart env of
                          Some err \<Rightarrow> start_failed err s3
                        | None \<Rightarrow> s3)))"

text \<open>\<open>mediaRecorder.onstart\<close> and the \<open>onended\<close> handler of the video track.\<close>

definition recorder_onstart :: "recorder \<Rightarrow> recorder" where
  "recorder_onstart s =
     s\<lparr>backgroundRecording := True,
       toasts := toasts s @
         [\<lparr>title = ''Background recording started'',
           description = ''Screen capture is now active in the background.'',
           destructive = False\<rparr>]\<rparr>"

definition track_onended :: "recorder \<Rightarrow> recorder" where
  "track_onended s =
     s\<lparr>backgroundRecording := False, error := Some ''Screen sharing was stopped by user''\<rparr>"

subsection \<open>Runs of a session\<close>

text \<open>
  The handlers that touch the rolling buffer while a background session is active, as
  operations, and the indices that a run of them assigns: the indices of the chunks that
  \<open>ondataavailable\<close> pushed.
\<close>

datatype session_op =
    DataAvailable int "blob option"
  | TimerTick int RecordingSettings
  | Capture int "int option"
  | ClearBuffer
  | UpdateSettings int setting

fun step :: "session_op \<Rightarrow> recorder \<Rightarrow> recorder" where
  "step (DataAvailable now d) s = ondataavailable now d s"
| "step (TimerTick now st) s = bufferTimerTick now st s"
| "step (Capture now minutes) s = captureLastMinutes now minutes s"
| "step ClearBuffer s = clearBuffer s"
| "step (UpdateSettings now kv) s = updateSettings now kv s"

fun assigned :: "session_op \<Rightarrow> recorder \<Rightarrow> int list" where
  "assigned (DataAvailable now d) s =
     map index (drop (length (bufferChunksRef s)) (bufferChunksRef (ondataavailable now d s)))"
| "assigned _ s = []"

fun run :: "session_op list \<Rightarrow> recorder \<Rightarrow> recorder" where
  "run [] s = s"
| "run (x # xs) s = run xs (step x s)"

fun indices_assigned :: "session_op list \<Rightarrow> recorder \<Rightarrow> int list" where
  "indices_assigned [] s = []"
| "indices_assigned (x # xs) s = assigned x s @ indices_assigned xs (step x s)"

definition is_clear :: "session_op \<Rightarrow> bool" where
  "is_clear x = (case x of ClearBuffer \<Rightarrow> True | _ \<Rightarrow> False)"

text \<open>A run of \<open>ondataavailable\<close> events, each with its time and its data.\<close>

definition appends :: "(int \<times> blob) list \<Rightarrow> session_op list" where
  "appends evs = map (\<lambda>e. DataAvailable (fst e) (Some (snd e))) evs"

subsection \<open>Concrete states\<close>

text \<open>The initial values of the component's state and refs.\<close>

definition initial_settings :: RecordingSettings where
  "initial_settings =
     \<lparr>screenSource = Screen, includeSystemAudio = True, includeMicrophone = False,
      videoQuality = Medium, frameRate = 30, audioBitrate = 128,
      backgroundRecordingSetting = False, bufferDuration = 3\<rparr>"

definition initial_recorder :: recorder where
  "initial_recorder =
     \<lparr>backgroundRecording = False, videoURL = None, error = None, bufferTime = 0,
      bufferSize = 0, settings = initial_settings, backgroundRecorderRef = None,
      backgroundStreamRef = None, bufferChunksRef = [], chunkIndexRef = 0, toasts = [],
      stoppedStreams = [], revokedURLs = []\<rparr>"

definition granted_env :: start_env where
  "granted_env =
     \<lparr>getDisplayMedia = Inr \<lparr>videoTracks = 1, audioTracks = 1\<rparr>, recorderWebm = None,
      recorderDefault = None, recorderStart = None\<rparr>"

definition denied_env :: start_env where
  "denied_env =
     \<lparr>getDisplayMedia = Inl (JsError ''NotAllowedError'' ''Permission denied''),
      recorderWebm = None, recorderDefault = None, recorderStart = None\<rparr>"

definition blob_a :: blob where
  "blob_a = Blob [1, 2, 3] ''video/webm''"

definition blob_b :: blob where
  "blob_b = Blob [4, 5] ''video/webm''"

text \<open>A session that was started, reported its start and received one chunk at time 0.\<close>

definition started_session :: recorder where
  "started_session = recorder_onstart (startBackgroundRecording granted_env initial_recorder)"

definition active_session :: recorder where
  "active_session = ondataavailable 0 (Some blob_a) started_session"

definition second_chunk_session :: recorder where
  "second_chunk_session = ondataavailable 200000 (Some blob_b) active_session"

text \<open>The sweep of the timer ran when the chunk was exactly three minutes old, and kept it.\<close>

definition swept_session :: recorder where
  "swept_session = bufferTimerTick 180000 initial_settings active_session"

text \<open>The user ended screen sharing from the browser: the session is idle, the buffer is kept.\<close>

definition idle_with_data :: recorder where
  "idle_with_data = track_onended active_session"

text \<open>A session started with a window of five minutes that received one chunk at time 0.\<close>

definition five_minute_session :: recorder where
  "five_minute_session =
     ondataavailable 0 (Some blob_a)
       (recorder_onstart
          (startBackgroundRecording granted_env
             (updateSettings 0 (BufferDuration 5) initial_recorder)))"

text \<open>A chunk store whose physical order is not the order of the indices.\<close>

definition shuffled_store :: recorder where
  "shuffled_store =
     started_session
       \<lparr>bufferChunksRef :=
          [\<lparr>data = blob_b, timestamp = 1000, index = 1\<rparr>,
           \<lparr>data = blob_a, timestamp = 0, index = 0\<rparr>],
        chunkIndexRef := 2\<rparr>"

subsection \<open>Invariants of the buffer\<close>

text \<open>
  The indices in the store increase strictly in storage order and lie below the counter;
  every stored chunk has data.
\<close>

definition buffer_ordered :: "recorder \<Rightarrow> bool" where
  "buffer_ordered s =
     (sorted_wrt (<) (map index (bufferChunksRef s)) \<and>
      list_all (\<lambda>c. index c < chunkIndexRef s) (bufferChunksRef s))"

definition no_empty_chunk :: "recorder \<Rightarrow> bool" where
  "no_empty_chunk s = list_all (\<lambda>c. 0 < size_of (data c)) (bufferChunksRef s)"

section \<open>Effect of each handler on the buffer and the counter\<close>

lemma cleanup_buffer: "bufferChunksRef (cleanupOldBufferChunks now st s) = filter (\<lambda>chunk. now - timestamp chunk \<le> maxAge st) (bufferChunksRef s)"
  by (simp add: cleanupOldBufferChunks_def)

lemma cleanup_index: "chunkIndexRef (cleanupOldBufferChunks now st s) = chunkIndexRef s"
  by (simp add: cleanupOldBufferChunks_def)

lemma ondataavailable_None: "ondataavailable now None s = s"
  by (simp add: ondataavailable_def)

lemma ondataavailable_empty: "size_of d \<le> 0 \<Longrightarrow> ondataavailable now (Some d) s = s"
  by (simp add: ondataavailable_def)

lemma ondataavailable_buffer:
  "0 < size_of d \<Longrightarrow> bufferChunksRef (ondataavailable now (Some d) s) =
     bufferChunksRef s @ [\<lparr>data = d, timestamp = now, index = chunkIndexRef s\<rparr>]"
  by (simp add: ondataavailable_def Let_def)

lemma ondataavailable_index:
  "0 < size_of d \<Longrightarrow> chunkIndexRef (ondataavailable now (Some d) s) = chunkIndexRef s + 1"
  by (simp add: ondataavailable_def Let_def)

lemma capture_buffer: "bufferChunksRef (captureLastMinutes now minutes s) = bufferChunksRef s"
  by (simp add: captureLastMinutes_def Let_def split: option.splits bool.splits)

lemma capture_index: "chunkIndexRef (captureLastMinutes now minutes s) = chunkIndexRef s"
  by (simp add: captureLastMinutes_def Let_def split: option.splits bool.splits)

lemma update_buffer:
  "bufferChunksRef (updateSettings now kv s) =
     (if is_bufferDuration kv \<and> backgroundRecording s
      then filter (\<lambda>chunk. now - timestamp chunk \<le> maxAge (settings s)) (bufferChunksRef s)
      else bufferChunksRef s)"
  by (simp add: updateSettings_def Let_def cleanup_buffer)

lemma update_index: "chunkIndexRef (updateSettings now kv s) = chunkIndexRef s"
  by (simp add: updateSettings_def Let_def cleanup_index)

lemma tick_buffer:
  "bufferChunksRef (bufferTimerTick now st s) =
     filter (\<lambda>chunk. now - timestamp chunk \<le> maxAge st) (bufferChunksRef s)"
  by (simp add: bufferTimerTick_def cleanup_buffer)

lemma tick_index: "chunkIndexRef (bufferTimerTick now st s) = chunkIndexRef s"
  by (simp add: bufferTimerTick_def cleanup_index)

lemma clear_buffer: "bufferChunksRef (clearBuffer s) = []"
  by (simp add: clearBuffer_def)

lemma clear_index: "chunkIndexRef (clearBuffer s) = 0"
  by (simp add: clearBuffer_def)

lemma step_no_empty_chunk:
  assumes inv: "no_empty_chunk s"
  shows "no_empty_chunk (step x s)"
proof (cases x)
  case (DataAvailable now d)
  show ?thesis
  proof (cases d)
    case None
    with DataAvailable show ?thesis using inv by (simp add: ondataavailable_None)
  next
    case (Some b)
    show ?thesis
    proof (cases "0 < size_of b")
      case True
      with DataAvailable Some inv show ?thesis
        by (simp add: no_empty_chunk_def ondataavailable_buffer)
    next
      case False
      with DataAvailable Some inv show ?thesis
        by (simp add: ondataavailable_empty)
    qed
  qed
next
  case (TimerTick now st)
  with inv show ?thesis
    by (simp add: no_empty_chunk_def tick_buffer list_all_iff)
next
  case (Capture now m)
  with inv show ?thesis by (simp add: no_empty_chunk_def capture_buffer)
next
  case ClearBuffer
  then show ?thesis by (simp add: no_empty_chunk_def clear_buffer)
next
  case (UpdateSettings now kv)
  with inv show ?thesis
    by (simp add: no_empty_chunk_def update_buffer list_all_iff)
qed

lemma run_no_empty_chunk: "no_empty_chunk s \<Longrightarrow> no_empty_chunk (run ops s)"
  by (induction ops arbitrary: s) (simp_all add: step_no_empty_chunk)

lemma assigned_cases:
  "assigned x s = [] \<and> chunkIndexRef (step x s) = chunkIndexRef s
   \<or> assigned x s = [chunkIndexRef s] \<and> chunkIndexRef (step x s) = chunkIndexRef s + 1
   \<or> x = ClearBuffer"
proof (cases x)
  case (DataAvailable now d)
  show ?thesis
  proof (cases d)
    case None
    with DataAvailable show ?thesis by (simp add: ondataavailable_None)
  next
    case (Some b)
    show ?thesis
    proof (cases "0 < size_of b")
      case True
      with DataAvailable Some show ?thesis
        by (simp add: ondataavailable_buffer ondataavailable_index)
    next
      case False
      with DataAvailable Some show ?thesis by (simp add: ondataavailable_empty)
    qed
  qed
next
  case (TimerTick now st)
  then show ?thesis by (simp add: tick_index)
next
  case (Capture now m)
  then show ?thesis by (simp add: capture_index)
next
  case ClearBuffer
  then show ?thesis by simp
next
  case (UpdateSettings now kv)
  then show ?thesis by (simp add: update_index)
qed

lemma indices_assigned_lower:
  "list_all (\<lambda>x. \<not> is_clear x) ops \<Longrightarrow> i \<in> set (indices_assigned ops s) \<Longrightarrow> chunkIndexRef s \<le> i"
proof (induction ops arbitrary: s)
  case Nil
  then show ?case by simp
next
  case (Cons x ops)
  from Cons.prems(1) have nc: "x \<noteq> ClearBuffer" and rest: "list_all (\<lambda>x. \<not> is_clear x) ops"
    by (auto simp: is_clear_def)
  from Cons.prems(2) consider "i \<in> set (assigned x s)" | "i \<in> set (indices_assigned ops (step x s))"
    by auto
  then show ?case
  proof cases
    case 1
    with assigned_cases [of x s] nc show ?thesis by auto
  next
    case 2
    from Cons.IH [OF rest 2] assigned_cases [of x s] nc show ?thesis by auto
  qed
qed

lemma indices_assigned_increasing:
  "list_all (\<lambda>x. \<not> is_clear x) ops \<Longrightarrow> sorted_wrt (<) (indices_assigned ops s)"
proof (induction ops arbitrary: s)
  case Nil
  then show ?case by simp
next
  case (Cons x ops)
  from Cons.prems have nc: "x \<noteq> ClearBuffer" and rest: "list_all (\<lambda>x. \<not> is_clear x) ops"
    by (auto simp: is_clear_def)
  have tail: "sorted_wrt (<) (indices_assigned ops (step x s))"
    by (rule Cons.IH [OF rest])
  from assigned_cases [of x s] nc
  consider "assigned x s = []"
    | "assigned x s = [chunkIndexRef s]" "chunkIndexRef (step x s) = chunkIndexRef s + 1"
    by auto
  then show ?case
  proof cases
    case 1
    with tail show ?thesis by simp
  next
    case 2
    have "chunkIndexRef s < j" if "j \<in> set (indices_assigned ops (step x s))" for j
      using indices_assigned_lower [OF rest that] 2(2) by simp
    with tail 2(1) show ?thesis by simp
  qed
qed

lemma step_buffer_ordered:
  assumes inv: "buffer_ordered s"
  shows "buffer_ordered (step x s)"
proof (cases x)
  case (DataAvailable now d)
  show ?thesis
  proof (cases d)
    case None
    with DataAvailable inv show ?thesis by (simp add: ondataavailable_None)
  next
    case (Some b)
    show ?thesis
    proof (cases "0 < size_of b")
      case True
      with DataAvailable Some inv show ?thesis
        by (auto simp: buffer_ordered_def ondataavailable_buffer ondataavailable_index
            sorted_wrt_append list_all_iff)
    next
      case False
      with DataAvailable Some inv show ?thesis by (simp add: ondataavailable_empty)
    qed
  qed
next
  case (TimerTick now st)
  with inv show ?thesis
    by (auto simp: buffer_ordered_def tick_buffer tick_index list_all_iff sorted_wrt_map
        intro: sorted_wrt_filter)
next
  case (Capture now m)
  with inv show ?thesis by (simp add: buffer_ordered_def capture_buffer capture_index)
next
  case ClearBuffer
  then show ?thesis by (simp add: buffer_ordered_def clear_buffer clear_index)
next
  case (UpdateSettings now kv)
  with inv show ?thesis
    by (auto simp: buffer_ordered_def update_buffer update_index list_all_iff sorted_wrt_map
        intro: sorted_wrt_filter)
qed

lemma run_buffer_ordered: "buffer_ordered s \<Longrightarrow> buffer_ordered (run ops s)"
  by (induction ops arbitrary: s) (simp_all add: step_buffer_ordered)

lemma started_session_buffer:
  "bufferChunksRef started_session = [] \<and> chunkIndexRef started_session = 0"
  by (simp add: started_session_def recorder_onstart_def startBackgroundRecording_def
      granted_env_def initial_recorder_def Let_def)

lemma sorted_chunksToUse: "sorted (map index (chunksToUse now minutes chunks))"
  by (cases minutes) (simp_all add: chunksToUse_def sortedChunks_def Let_def sorted_filter)

lemma mset_chunksToUse_all: "mset (chunksToUse now None chunks) = mset chunks"
  by (simp add: chunksToUse_def sortedChunks_def)

lemma mset_chunksToUse_some:
  "mset (chunksToUse now (Some m) chunks) =
     mset (filter (\<lambda>chunk. timestamp chunk \<ge> now - m * 60 * 1000) chunks)"
  by (simp add: chunksToUse_def sortedChunks_def Let_def)

lemma chunksToUse_Nil: "chunksToUse now minutes [] = []"
  by (cases minutes) (simp_all add: chunksToUse_def sortedChunks_def)

lemma capture_videoURL:
  assumes ne: "chunksToUse now minutes (bufferChunksRef s) \<noteq> []"
  shows "videoURL (captureLastMinutes now minutes s) =
     Some (ObjectURL (new_Blob (map data (chunksToUse now minutes (bufferChunksRef s))) ''video/webm''))"
proof -
  from ne have "bufferChunksRef s \<noteq> []"
    by (auto simp: chunksToUse_Nil)
  with ne show ?thesis
    by (cases minutes; cases "videoURL s") (simp_all add: captureLastMinutes_def Let_def)
qed

lemma chunksToUse_ordered_store:
  assumes "buffer_ordered s"
  shows "chunksToUse now None (bufferChunksRef s) = bufferChunksRef s"
proof -
  from assms have "sorted_wrt (<) (map index (bufferChunksRef s))"
    by (simp add: buffer_ordered_def)
  then have "sorted (map index (bufferChunksRef s))"
    by (rule sorted_wrt_mono_rel [rotated]) simp
  then show ?thesis
    by (simp add: chunksToUse_def sortedChunks_def sort_key_id_if_sorted)
qed

lemma run_appends_data:
  "list_all (\<lambda>e. 0 < size_of (snd e)) evs \<Longrightarrow>
   map data (bufferChunksRef (run (appends evs) s)) = map data (bufferChunksRef s) @ map snd evs"
proof (induction evs arbitrary: s)
  case Nil
  then show ?case by (simp add: appends_def)
next
  case (Cons e evs)
  from Cons.prems have pos: "0 < size_of (snd e)" and rest: "list_all (\<lambda>e. 0 < size_of (snd e)) evs"
    by simp_all
  have "run (appends (e # evs)) s = run (appends evs) (ondataavailable (fst e) (Some (snd e)) s)"
    by (simp add: appends_def)
  with Cons.IH [OF rest, of "ondataavailable (fst e) (Some (snd e)) s"] pos
  show ?case by (simp add: ondataavailable_buffer)
qed

lemma run_appends_timestamp:
  "list_all (\<lambda>e. 0 < size_of (snd e)) evs \<Longrightarrow>
   map timestamp (bufferChunksRef (run (appends evs) s)) = map timestamp (bufferChunksRef s) @ map fst evs"
proof (induction evs arbitrary: s)
  case Nil
  then show ?case by (simp add: appends_def)
next
  case (Cons e evs)
  from Cons.prems have pos: "0 < size_of (snd e)" and rest: "list_all (\<lambda>e. 0 < size_of (snd e)) evs"
    by simp_all
  have "run (appends (e # evs)) s = run (appends evs) (ondataavailable (fst e) (Some (snd e)) s)"
    by (simp add: appends_def)
  with Cons.IH [OF rest, of "ondataavailable (fst e) (Some (snd e)) s"] pos
  show ?case by (simp add: ondataavailable_buffer)
qed

lemma capture_all_after_appends:
  assumes empty: "bufferChunksRef s = []" and ne: "evs \<noteq> []"
    and pos: "list_all (\<lambda>e. 0 < size_of (snd e)) evs"
  shows "chunksToUse now None (bufferChunksRef (run (appends evs) s)) = bufferChunksRef (run (appends evs) s)"
    and "map data (bufferChunksRef (run (appends evs) s)) = map snd evs"
    and "map timestamp (bufferChunksRef (run (appends evs) s)) = map fst evs"
    and "videoURL (captureLastMinutes now None (run (appends evs) s)) =
           Some (ObjectURL (new_Blob (map snd evs) ''video/webm''))"
proof -
  let ?s = "run (appends evs) s"
  from empty have "buffer_ordered s" by (simp add: buffer_ordered_def)
  then have "buffer_ordered ?s" by (rule run_buffer_ordered)
  then show a: "chunksToUse now None (bufferChunksRef ?s) = bufferChunksRef ?s"
    by (rule chunksToUse_ordered_store)
  show b: "map data (bufferChunksRef ?s) = map snd evs"
    using run_appends_data [OF pos, of s] empty by simp
  show "map timestamp (bufferChunksRef ?s) = map fst evs"
    using run_appends_timestamp [OF pos, of s] empty by simp
  from b ne have "bufferChunksRef ?s \<noteq> []" by auto
  with a have "chunksToUse now None (bufferChunksRef ?s) \<noteq> []" by simp
  from capture_videoURL [OF this] a b
  show "videoURL (captureLastMinutes now None ?s) =
           Some (ObjectURL (new_Blob (map snd evs) ''video/webm''))" by simp
qed

lemma blob_sizes: "0 < size_of blob_a \<and> 0 < size_of blob_b"
  by (simp add: size_of_def blob_a_def blob_b_def)

lemma not_enough_differs: "not_enough_toast m \<noteq> no_data_toast"
  by (simp add: not_enough_toast_def no_data_toast_def)

lemma chunksToUse_none_recent:
  assumes "list_all (\<lambda>c. timestamp c < now - m * 60 * 1000) chunks"
  shows "chunksToUse now (Some m) chunks = []"
proof -
  have "set (chunksToUse now (Some m) chunks) = {c \<in> set chunks. timestamp c \<ge> now - m * 60 * 1000}"
    by (simp add: chunksToUse_def sortedChunks_def Let_def)
  with assms have "set (chunksToUse now (Some m) chunks) = {}"
    by (auto simp: list_all_iff)
  then show ?thesis by simp
qed

lemma active_session_buffer:
  "bufferChunksRef active_session = [\<lparr>data = blob_a, timestamp = 0, index = 0\<rparr>]
   \<and> chunkIndexRef active_session = 1 \<and> backgroundRecording active_session
   \<and> settings active_session = initial_settings"
  by (simp add: active_session_def ondataavailable_buffer ondataavailable_index blob_sizes
      started_session_buffer)
    (simp add: ondataavailable_def Let_def started_session_def recorder_onstart_def
      startBackgroundRecording_def granted_env_def initial_recorder_def blob_sizes)

lemma tick_settings: "settings (bufferTimerTick now st s) = settings s"
  by (simp add: bufferTimerTick_def cleanupOldBufferChunks_def)

lemma swept_session_state:
  "bufferChunksRef swept_session = [\<lparr>data = blob_a, timestamp = 0, index = 0\<rparr>]
   \<and> settings swept_session = initial_settings"
  by (simp add: swept_session_def tick_buffer tick_settings active_session_buffer maxAge_def
      initial_settings_def)

lemma stop_stream_buffer:
  "bufferChunksRef (stop_stream s) = bufferChunksRef s \<and> chunkIndexRef (stop_stream s) = chunkIndexRef s
   \<and> backgroundRecording (stop_stream s) = backgroundRecording s \<and> error (stop_stream s) = error s
   \<and> backgroundStreamRef (stop_stream s) = None"
  by (simp add: stop_stream_def split: option.splits)

lemma start_failed_buffer:
  "bufferChunksRef (start_failed err s) = bufferChunksRef s
   \<and> chunkIndexRef (start_failed err s) = chunkIndexRef s
   \<and> \<not> backgroundRecording (start_failed err s)
   \<and> error (start_failed err s) \<noteq> None
   \<and> backgroundStreamRef (start_failed err s) = None"
  by (simp add: start_failed_def Let_def stop_stream_buffer)

lemma start_clears_buffer:
  "bufferChunksRef (startBackgroundRecording env s) = []
   \<and> chunkIndexRef (startBackgroundRecording env s) = 0"
  by (simp add: startBackgroundRecording_def Let_def start_failed_buffer
      split: sum.splits option.splits)

lemma start_granted:
  assumes "getDisplayMedia env = Inr stream" "0 < videoTracks stream"
    "recorderWebm env = None" "recorderStart env = None"
  shows "backgroundStreamRef (startBackgroundRecording env s) = Some stream
   \<and> backgroundRecorderRef (startBackgroundRecording env s) =
       Some (MediaRecorder stream (Some ''video/webm''))
   \<and> error (startBackgroundRecording env s) = None"
  using assms by (simp add: startBackgroundRecording_def Let_def)

lemma start_denied:
  assumes "getDisplayMedia env = Inl err"
  shows "startBackgroundRecording env s =
     start_failed err
       (s\<lparr>error := None, bufferChunksRef := [], chunkIndexRef := 0, bufferTime := 0, bufferSize := 0\<rparr>)"
  using assms by (simp add: startBackgroundRecording_def Let_def)

lemma idle_with_data_buffer:
  "bufferChunksRef idle_with_data = [\<lparr>data = blob_a, timestamp = 0, index = 0\<rparr>]
   \<and> chunkIndexRef idle_with_data = 1 \<and> \<not> backgroundRecording idle_with_data"
  by (simp add: idle_with_data_def track_onended_def active_session_buffer)

lemma chunksToUse_within_cutoff:
  "list_all (\<lambda>c. now - m * 60 * 1000 \<le> timestamp c) (chunksToUse now (Some m) chunks)"
  by (simp add: chunksToUse_def sortedChunks_def Let_def list_all_iff)

lemma second_chunk_session_buffer:
  "bufferChunksRef second_chunk_session =
     [\<lparr>data = blob_a, timestamp = 0, index = 0\<rparr>, \<lparr>data = blob_b, timestamp = 200000, index = 1\<rparr>]"
  by (simp add: second_chunk_session_def ondataavailable_buffer blob_sizes active_session_buffer)

lemma five_minute_session_state:
  "bufferChunksRef five_minute_session = [\<lparr>data = blob_a, timestamp = 0, index = 0\<rparr>]
   \<and> backgroundRecording five_minute_session
   \<and> bufferDuration (settings five_minute_session) = 5"
  by (simp add: five_minute_session_def ondataavailable_def Let_def blob_sizes
      recorder_onstart_def startBackgroundRecording_def granted_env_def updateSettings_def
      initial_recorder_def)

section \<open>Eviction: retention and idempotence\<close>

text \<open>
  C7. For every buffer, time \<open>now\<close> and window duration (\<open>bufferDuration\<close> minutes, that
  is \<open>bufferDuration * 60 * 1000\<close> milliseconds), after \<open>cleanupOldBufferChunks\<close> every
  retained chunk satisfies \<open>now - timestamp \<le> bufferDuration * 60 * 1000\<close>, every chunk
  that was removed had \<open>now - timestamp > bufferDuration * 60 * 1000\<close>, and the survivors
  keep their relative order: the result is the sublist of the chunks within the window.
\<close>

theorem cleanup_retention:
  "list_all (\<lambda>c. now - timestamp c \<le> bufferDuration st * 60 * 1000)
     (bufferChunksRef (cleanupOldBufferChunks now st s))
   \<and> (\<forall>c \<in> set (bufferChunksRef s) - set (bufferChunksRef (cleanupOldBufferChunks now st s)).
         now - timestamp c > bufferDuration st * 60 * 1000)
   \<and> subseq (bufferChunksRef (cleanupOldBufferChunks now st s)) (bufferChunksRef s)
   \<and> bufferChunksRef (cleanupOldBufferChunks now st s)
       = filter (\<lambda>c. now - timestamp c \<le> bufferDuration st * 60 * 1000) (bufferChunksRef s)"
  by (auto simp: cleanup_buffer maxAge_def list_all_iff)

theorem cleanup_retention_witness:
  "bufferChunksRef second_chunk_session =
     [\<lparr>data = blob_a, timestamp = 0, index = 0\<rparr>, \<lparr>data = blob_b, timestamp = 200000, index = 1\<rparr>]
   \<and> bufferDuration initial_settings = 3
   \<and> bufferChunksRef (cleanupOldBufferChunks 250000 initial_settings second_chunk_session) =
     [\<lparr>data = blob_b, timestamp = 200000, index = 1\<rparr>]
   \<and> list_all (\<lambda>c. 250000 - timestamp c \<le> bufferDuration initial_settings * 60 * 1000)
        (bufferChunksRef (cleanupOldBufferChunks 250000 initial_settings second_chunk_session))
   \<and> 250000 - timestamp \<lparr>data = blob_a, timestamp = 0, index = 0\<rparr>
        > bufferDuration initial_settings * 60 * 1000
   \<and> subseq (bufferChunksRef (cleanupOldBufferChunks 250000 initial_settings second_chunk_session))
        (bufferChunksRef second_chunk_session)
   \<and> bufferChunksRef
        (cleanupOldBufferChunks 250000 (initial_settings\<lparr>bufferDuration := 5\<rparr>) second_chunk_session) =
     [\<lparr>data = blob_a, timestamp = 0, index = 0\<rparr>, \<lparr>data = blob_b, timestamp = 200000, index = 1\<rparr>]
   \<and> bufferChunksRef
        (cleanupOldBufferChunks 250000 (initial_settings\<lparr>bufferDuration := 1\<rparr>) second_chunk_session) =
     [\<lparr>data = blob_b, timestamp = 200000, index = 1\<rparr>]
   \<and> bufferChunksRef
        (cleanupOldBufferChunks 270000 (initial_settings\<lparr>bufferDuration := 1\<rparr>) second_chunk_session) = []"
proof -
  have a: "bufferChunksRef second_chunk_session =
     [\<lparr>data = blob_a, timestamp = 0, index = 0\<rparr>, \<lparr>data = blob_b, timestamp = 200000, index = 1\<rparr>]"
    by (rule second_chunk_session_buffer)
  have d: "bufferDuration initial_settings = 3"
    by (simp add: initial_settings_def)
  from a d
    cleanup_retention [of 250000 initial_settings second_chunk_session]
    cleanup_retention [of 250000 "initial_settings\<lparr>bufferDuration := 5\<rparr>" second_chunk_session]
    cleanup_retention [of 250000 "initial_settings\<lparr>bufferDuration := 1\<rparr>" second_chunk_session]
    cleanup_retention [of 270000 "initial_settings\<lparr>bufferDuration := 1\<rparr>" second_chunk_session]
  show ?thesis by simp
qed

text \<open>
  C9. Eviction is idempotent: a second \<open>cleanupOldBufferChunks\<close> at the same time and
  with the same window duration changes nothing.
\<close>

theorem cleanup_idempotent:
  "cleanupOldBufferChunks now st (cleanupOldBufferChunks now st s) = cleanupOldBufferChunks now st s"
  by (simp add: cleanupOldBufferChunks_def)

section \<open>Ingestion\<close>

text \<open>
  C8. The buffer never holds a chunk of size zero: \<open>ondataavailable\<close> with missing or
  empty data leaves the whole state, hence the buffer, its length and the counter,
  unchanged; with data of positive size the length grows by exactly one (and the counter
  by one); and no operation of a session puts an empty chunk into the buffer.
\<close>

theorem no_zero_size_segment:
  "ondataavailable now None s = s
   \<and> (size_of d = 0 \<longrightarrow> ondataavailable now (Some d) s = s)
   \<and> (0 < size_of d \<longrightarrow>
        length (bufferChunksRef (ondataavailable now (Some d) s)) = length (bufferChunksRef s) + 1
        \<and> chunkIndexRef (ondataavailable now (Some d) s) = chunkIndexRef s + 1)
   \<and> (no_empty_chunk s \<longrightarrow> no_empty_chunk (run ops s))"
  by (simp add: ondataavailable_None ondataavailable_empty ondataavailable_buffer
      ondataavailable_index run_no_empty_chunk)

theorem no_zero_size_segment_witness:
  "size_of (Blob [] ''video/webm'') = 0
   \<and> ondataavailable 5 (Some (Blob [] ''video/webm'')) started_session = started_session
   \<and> 0 < size_of blob_a
   \<and> length (bufferChunksRef (ondataavailable 5 (Some blob_a) started_session)) = 1
   \<and> chunkIndexRef (ondataavailable 5 (Some blob_a) started_session) = 1
   \<and> no_empty_chunk started_session
   \<and> no_empty_chunk
       (run [DataAvailable 0 (Some blob_a), DataAvailable 1000 (Some (Blob [] ''video/webm'')),
             TimerTick 1000 initial_settings, DataAvailable 2000 (Some blob_b)] started_session)"
proof -
  have z: "size_of (Blob [] ''video/webm'') = 0" and p: "0 < size_of blob_a"
    by (simp_all add: size_of_def blob_a_def)
  have e: "no_empty_chunk started_session"
    by (simp add: no_empty_chunk_def started_session_buffer)
  from z p e
    no_zero_size_segment [of 5 started_session "Blob [] ''video/webm''"
      "[DataAvailable 0 (Some blob_a), DataAvailable 1000 (Some (Blob [] ''video/webm'')),
             TimerTick 1000 initial_settings, DataAvailable 2000 (Some blob_b)]"]
    no_zero_size_segment [of 5 started_session blob_a "[]"]
  show ?thesis by (simp add: started_session_buffer)
qed

section \<open>Sequence indices\<close>

text \<open>
  C10, as stated, fails: after a chunk was appended with index 0, \<open>clearBuffer\<close> resets
  the counter, and the next chunk of the same session is given index 0 again.
\<close>

theorem indices_reused_after_clear:
  "indices_assigned
     [DataAvailable 0 (Some blob_a), ClearBuffer, DataAvailable 1000 (Some blob_b)]
     started_session = [0, 0]"
  by (simp add: ondataavailable_buffer ondataavailable_index clear_buffer clear_index
      started_session_buffer blob_a_def blob_b_def size_of_def)

text \<open>
  C10, amended. In a run of appends, sweeps, extractions and settings updates without
  \<open>clearBuffer\<close>, the indices assigned at ingestion increase strictly (so none is reused)
  and are at least the counter at the start of the run. \<open>clearBuffer\<close> resets the counter
  to 0, so the first chunk after a clear is given index 0. In every run, clears included,
  the chunks held in the buffer keep strictly increasing indices below the counter.
\<close>

theorem indices_increase_between_clears:
  "(list_all (\<lambda>x. \<not> is_clear x) ops \<longrightarrow>
      sorted_wrt (<) (indices_assigned ops s)
      \<and> list_all (\<lambda>i. chunkIndexRef s \<le> i) (indices_assigned ops s))
   \<and> chunkIndexRef (step ClearBuffer s) = 0
   \<and> (0 < size_of d \<longrightarrow> assigned (DataAvailable now (Some d)) (step ClearBuffer s) = [0])
   \<and> (buffer_ordered s \<longrightarrow> buffer_ordered (run ops s))"
  by (auto simp: indices_assigned_increasing indices_assigned_lower list_all_iff clear_index
      clear_buffer ondataavailable_buffer run_buffer_ordered)

theorem indices_increase_between_clears_witness:
  "list_all (\<lambda>x. \<not> is_clear x)
     [DataAvailable 0 (Some blob_a), TimerTick 500 initial_settings,
      DataAvailable 1000 (Some blob_b), Capture 1500 None, DataAvailable 2000 (Some blob_a)]
   \<and> indices_assigned
       [DataAvailable 0 (Some blob_a), TimerTick 500 initial_settings,
        DataAvailable 1000 (Some blob_b), Capture 1500 None, DataAvailable 2000 (Some blob_a)]
       started_session = [0, 1, 2]
   \<and> sorted_wrt (<) (indices_assigned
       [DataAvailable 0 (Some blob_a), TimerTick 500 initial_settings,
        DataAvailable 1000 (Some blob_b), Capture 1500 None, DataAvailable 2000 (Some blob_a)]
       started_session)
   \<and> 0 < size_of blob_b
   \<and> assigned (DataAvailable 7 (Some blob_b)) (step ClearBuffer active_session) = [0]
   \<and> buffer_ordered started_session
   \<and> buffer_ordered (run [DataAvailable 0 (Some blob_a), ClearBuffer,
        DataAvailable 1000 (Some blob_b)] started_session)"
proof -
  let ?ops = "[DataAvailable 0 (Some blob_a), TimerTick 500 initial_settings,
        DataAvailable 1000 (Some blob_b), Capture 1500 None, DataAvailable 2000 (Some blob_a)]"
  have nc: "list_all (\<lambda>x. \<not> is_clear x) ?ops"
    by (simp add: is_clear_def)
  have pa: "0 < size_of blob_a" and pb: "0 < size_of blob_b"
    by (simp_all add: size_of_def blob_a_def blob_b_def)
  have ia: "indices_assigned ?ops started_session = [0, 1, 2]"
    by (simp add: ondataavailable_buffer ondataavailable_index tick_buffer tick_index
        capture_buffer capture_index started_session_buffer pa pb)
  have bo: "buffer_ordered started_session"
    by (simp add: buffer_ordered_def started_session_buffer)
  from nc pb bo ia
    indices_increase_between_clears [of ?ops started_session blob_b 7]
    indices_increase_between_clears [of "[DataAvailable 0 (Some blob_a), ClearBuffer,
        DataAvailable 1000 (Some blob_b)]" started_session blob_b 7]
    indices_increase_between_clears [of "[]" active_session blob_b 7]
  show ?thesis by simp
qed

section \<open>Extraction\<close>

text \<open>
  C1. For every buffer, whatever the physical order of the store, the chunks that
  \<open>captureLastMinutes\<close> uses are the eligible chunks of the buffer (all of them for
  "All", those with \<open>timestamp \<ge> now - minutes * 60000\<close> otherwise), each exactly once,
  in ascending order of index, and the artifact is the concatenation of their data in
  that order. In every state that a run of session operations reaches from an ordered
  buffer, "All" uses the chunks of the buffer exactly in their storage order. In
  particular, "All" after N > 0 appends into an empty buffer, with nothing evicted, yields
  the artifact made of exactly those N chunks in the order of the appends.
\<close>

theorem capture_in_index_order:
  "sorted (map index (chunksToUse now minutes (bufferChunksRef s)))
   \<and> mset (chunksToUse now None (bufferChunksRef s)) = mset (bufferChunksRef s)
   \<and> mset (chunksToUse now (Some m) (bufferChunksRef s)) =
       mset (filter (\<lambda>chunk. timestamp chunk \<ge> now - m * 60 * 1000) (bufferChunksRef s))
   \<and> (chunksToUse now minutes (bufferChunksRef s) \<noteq> [] \<longrightarrow>
        videoURL (captureLastMinutes now minutes s) =
          Some (ObjectURL (new_Blob (map data (chunksToUse now minutes (bufferChunksRef s)))
             ''video/webm'')))
   \<and> (buffer_ordered s \<longrightarrow>
        chunksToUse now None (bufferChunksRef (run ops s)) = bufferChunksRef (run ops s))
   \<and> (bufferChunksRef s = [] \<and> evs \<noteq> [] \<and> list_all (\<lambda>e. 0 < size_of (snd e)) evs \<longrightarrow>
        length (bufferChunksRef (run (appends evs) s)) = length evs
        \<and> map data (chunksToUse now None (bufferChunksRef (run (appends evs) s))) = map snd evs
        \<and> map timestamp (chunksToUse now None (bufferChunksRef (run (appends evs) s))) = map fst evs
        \<and> videoURL (captureLastMinutes now None (run (appends evs) s)) =
            Some (ObjectURL (new_Blob (map snd evs) ''video/webm'')))"
proof -
  have "length (bufferChunksRef (run (appends evs) s)) = length evs"
    if "map data (bufferChunksRef (run (appends evs) s)) = map snd evs"
    using that by (rule map_eq_imp_length_eq)
  then show ?thesis
    by (simp add: sorted_chunksToUse mset_chunksToUse_all mset_chunksToUse_some
        capture_videoURL capture_all_after_appends chunksToUse_ordered_store run_buffer_ordered)
qed

theorem capture_in_index_order_witness:
  "chunksToUse 5000 None (bufferChunksRef shuffled_store) =
     [\<lparr>data = blob_a, timestamp = 0, index = 0\<rparr>, \<lparr>data = blob_b, timestamp = 1000, index = 1\<rparr>]
   \<and> sorted (map index (chunksToUse 5000 None (bufferChunksRef shuffled_store)))
   \<and> videoURL (captureLastMinutes 5000 None shuffled_store) =
       Some (ObjectURL (Blob [1, 2, 3, 4, 5] ''video/webm''))
   \<and> buffer_ordered started_session
   \<and> chunksToUse 5000 None
        (bufferChunksRef (run [DataAvailable 0 (Some blob_a), TimerTick 1000 initial_settings,
           DataAvailable 1000 (Some blob_b)] started_session)) =
       [\<lparr>data = blob_a, timestamp = 0, index = 0\<rparr>, \<lparr>data = blob_b, timestamp = 1000, index = 1\<rparr>]
   \<and> bufferChunksRef started_session = []
   \<and> list_all (\<lambda>e. 0 < size_of (snd e)) [(0, blob_a), (1000, blob_b)]
   \<and> length (bufferChunksRef (run (appends [(0, blob_a), (1000, blob_b)]) started_session)) = 2
   \<and> videoURL (captureLastMinutes 5000 None
         (run (appends [(0, blob_a), (1000, blob_b)]) started_session)) =
       Some (ObjectURL (Blob [1, 2, 3, 4, 5] ''video/webm''))"
proof -
  let ?ops = "[DataAvailable 0 (Some blob_a), TimerTick 1000 initial_settings,
           DataAvailable 1000 (Some blob_b)]"
  have u: "chunksToUse 5000 None (bufferChunksRef shuffled_store) =
     [\<lparr>data = blob_a, timestamp = 0, index = 0\<rparr>, \<lparr>data = blob_b, timestamp = 1000, index = 1\<rparr>]"
    by (simp add: shuffled_store_def chunksToUse_def sortedChunks_def)
  have p: "list_all (\<lambda>e. 0 < size_of (snd e)) [(0, blob_a), (1000, blob_b)]"
    by (simp add: blob_sizes)
  have b: "new_Blob [blob_a, blob_b] ''video/webm'' = Blob [1, 2, 3, 4, 5] ''video/webm''"
    by (simp add: new_Blob_def blob_a_def blob_b_def)
  have o: "buffer_ordered started_session"
    by (simp add: buffer_ordered_def started_session_buffer)
  have r: "bufferChunksRef (run ?ops started_session) =
       [\<lparr>data = blob_a, timestamp = 0, index = 0\<rparr>, \<lparr>data = blob_b, timestamp = 1000, index = 1\<rparr>]"
    by (simp add: ondataavailable_buffer ondataavailable_index tick_buffer tick_index blob_sizes
        started_session_buffer maxAge_def initial_settings_def)
  from u p b o r started_session_buffer
    capture_in_index_order [of 5000 None shuffled_store 1 "[]" "[]"]
    capture_in_index_order [of 5000 None started_session 1 ?ops "[(0, blob_a), (1000, blob_b)]"]
  show ?thesis by simp
qed

text \<open>
  C2, as stated, fails: with a window of 3 minutes, a chunk that the last sweep of the
  timer kept (it was exactly 3 minutes old) is half a second later older than the window;
  \<open>captureLastMinutes\<close> for "All" then builds the artifact from that chunk and leaves
  it in the buffer, where an eviction pass at the time of the call would have removed it.
\<close>

theorem capture_uses_expired_chunk:
  "maxAge (settings swept_session) = 180000
   \<and> bufferChunksRef swept_session = [\<lparr>data = blob_a, timestamp = 0, index = 0\<rparr>]
   \<and> 180500 - timestamp \<lparr>data = blob_a, timestamp = 0, index = 0\<rparr> > maxAge (settings swept_session)
   \<and> bufferChunksRef (cleanupOldBufferChunks 180500 (settings swept_session) swept_session) = []
   \<and> bufferChunksRef (captureLastMinutes 180500 None swept_session) =
       [\<lparr>data = blob_a, timestamp = 0, index = 0\<rparr>]
   \<and> chunksToUse 180500 None (bufferChunksRef swept_session) =
       [\<lparr>data = blob_a, timestamp = 0, index = 0\<rparr>]
   \<and> videoURL (captureLastMinutes 180500 None swept_session) =
       Some (ObjectURL (Blob [1, 2, 3] ''video/webm''))"
proof -
  have m: "maxAge initial_settings = 180000"
    by (simp add: maxAge_def initial_settings_def)
  have u: "chunksToUse 180500 None (bufferChunksRef swept_session) =
       [\<lparr>data = blob_a, timestamp = 0, index = 0\<rparr>]"
    by (simp add: swept_session_state chunksToUse_def sortedChunks_def)
  have v: "videoURL (captureLastMinutes 180500 None swept_session) =
       Some (ObjectURL (Blob [1, 2, 3] ''video/webm''))"
    by (simp add: capture_videoURL u new_Blob_def blob_a_def)
  have c: "bufferChunksRef (cleanupOldBufferChunks 180500 (settings swept_session) swept_session) = []"
    by (simp add: cleanup_buffer swept_session_state m)
  from m u v c show ?thesis
    by (simp add: capture_buffer swept_session_state)
qed

text \<open>
  C2, amended. \<open>captureLastMinutes\<close> runs no eviction pass: it leaves the buffer and the
  counter as they are. For "All" it considers every chunk in the buffer at the time of the
  call, whatever its age; for a duration of \<open>m\<close> minutes it considers only chunks with
  \<open>timestamp \<ge> now - m * 60000\<close>, hence none older than the window when \<open>m\<close> does not
  exceed the window duration.
\<close>

theorem capture_never_evicts:
  "bufferChunksRef (captureLastMinutes now minutes s) = bufferChunksRef s
   \<and> chunkIndexRef (captureLastMinutes now minutes s) = chunkIndexRef s
   \<and> set (chunksToUse now None (bufferChunksRef s)) = set (bufferChunksRef s)
   \<and> list_all (\<lambda>c. now - m * 60 * 1000 \<le> timestamp c) (chunksToUse now (Some m) (bufferChunksRef s))
   \<and> (m \<le> bufferDuration st \<longrightarrow>
        list_all (\<lambda>c. now - timestamp c \<le> maxAge st) (chunksToUse now (Some m) (bufferChunksRef s)))"
proof -
  have "list_all (\<lambda>c. now - timestamp c \<le> maxAge st) (chunksToUse now (Some m) (bufferChunksRef s))"
    if le: "m \<le> bufferDuration st"
  proof -
    from le have "m * 60 * 1000 \<le> maxAge st"
      by (simp add: maxAge_def)
    with chunksToUse_within_cutoff [of now m "bufferChunksRef s"] show ?thesis
      by (auto simp: list_all_iff)
  qed
  moreover have "set (chunksToUse now None (bufferChunksRef s)) = set (bufferChunksRef s)"
    by (simp add: chunksToUse_def sortedChunks_def)
  ultimately show ?thesis
    using chunksToUse_within_cutoff [of now m "bufferChunksRef s"]
    by (simp add: capture_buffer capture_index)
qed

theorem capture_never_evicts_witness:
  "(1::int) \<le> bufferDuration initial_settings
   \<and> bufferChunksRef (captureLastMinutes 250000 (Some 1) second_chunk_session) =
       [\<lparr>data = blob_a, timestamp = 0, index = 0\<rparr>, \<lparr>data = blob_b, timestamp = 200000, index = 1\<rparr>]
   \<and> chunksToUse 250000 (Some 1) (bufferChunksRef second_chunk_session) =
       [\<lparr>data = blob_b, timestamp = 200000, index = 1\<rparr>]
   \<and> list_all (\<lambda>c. 250000 - timestamp c \<le> maxAge initial_settings)
       (chunksToUse 250000 (Some 1) (bufferChunksRef second_chunk_session))"
proof -
  have d: "(1::int) \<le> bufferDuration initial_settings"
    by (simp add: initial_settings_def)
  have u: "chunksToUse 250000 (Some 1) (bufferChunksRef second_chunk_session) =
       [\<lparr>data = blob_b, timestamp = 200000, index = 1\<rparr>]"
    by (simp add: second_chunk_session_buffer chunksToUse_def sortedChunks_def)
  from d u second_chunk_session_buffer
    capture_never_evicts [of 250000 "Some 1" second_chunk_session 1 initial_settings]
  show ?thesis by simp
qed

text \<open>
  C6. A capture of a given duration from a buffer that is not empty but holds no chunk
  within the cutoff reports "Not enough buffer data for m minute(s)."; a capture from an
  empty buffer reports "No recording data found in buffer."; the two reports differ. Both
  are ordinary returns: the handler only adds the toast and leaves everything else,
  buffer and artifact included, as it was.
\<close>

theorem insufficient_distinct_from_empty:
  "(bufferChunksRef s \<noteq> [] \<and> list_all (\<lambda>c. timestamp c < now - m * 60 * 1000) (bufferChunksRef s)
      \<longrightarrow> captureLastMinutes now (Some m) s = s\<lparr>toasts := toasts s @ [not_enough_toast m]\<rparr>)
   \<and> (bufferChunksRef s = []
      \<longrightarrow> captureLastMinutes now minutes s = s\<lparr>toasts := toasts s @ [no_data_toast]\<rparr>)
   \<and> not_enough_toast m \<noteq> no_data_toast
   \<and> description (not_enough_toast m) \<noteq> description no_data_toast"
proof -
  have "captureLastMinutes now (Some m) s = s\<lparr>toasts := toasts s @ [not_enough_toast m]\<rparr>"
    if "bufferChunksRef s \<noteq> []" "list_all (\<lambda>c. timestamp c < now - m * 60 * 1000) (bufferChunksRef s)"
    using that by (simp add: captureLastMinutes_def chunksToUse_none_recent)
  moreover have "captureLastMinutes now minutes s = s\<lparr>toasts := toasts s @ [no_data_toast]\<rparr>"
    if "bufferChunksRef s = []"
    using that by (simp add: captureLastMinutes_def)
  moreover have "description (not_enough_toast m) \<noteq> description no_data_toast"
    by (simp add: not_enough_toast_def no_data_toast_def)
  ultimately show ?thesis
    by (simp add: not_enough_differs)
qed

theorem insufficient_distinct_from_empty_witness:
  "bufferChunksRef active_session \<noteq> []
   \<and> list_all (\<lambda>c. timestamp c < 200000 - 1 * 60 * 1000) (bufferChunksRef active_session)
   \<and> captureLastMinutes 200000 (Some 1) active_session =
       active_session\<lparr>toasts := toasts active_session @
         [\<lparr>title = ''No data available'',
           description = ''Not enough buffer data for 1 minute(s).'', destructive = True\<rparr>]\<rparr>
   \<and> bufferChunksRef started_session = []
   \<and> captureLastMinutes 200000 (Some 1) started_session =
       started_session\<lparr>toasts := toasts started_session @
         [\<lparr>title = ''No data available'',
           description = ''No recording data found in buffer.'', destructive = True\<rparr>]\<rparr>"
proof -
  have t: "not_enough_toast 1 = \<lparr>title = ''No data available'',
           description = ''Not enough buffer data for 1 minute(s).'', destructive = True\<rparr>"
    by (simp add: not_enough_toast_def number_to_string_def string_of_nat.simps digit_char_def)
  from t active_session_buffer started_session_buffer
    insufficient_distinct_from_empty [of active_session 200000 1 None]
    insufficient_distinct_from_empty [of started_session 200000 1 "Some 1"]
  show ?thesis by (simp add: no_data_toast_def)
qed

section \<open>Changing the window duration\<close>

text \<open>
  C3. Changing \<open>bufferDuration\<close> during an active session should at once remove every
  chunk older than the new duration. The code runs the sweep with the duration of the
  current render, the old one: after shrinking the window from 5 minutes to 1 minute, a
  chunk of age 2 minutes is still in the buffer.
\<close>

theorem updateSettings_sweeps_with_old_duration:
  "backgroundRecording five_minute_session
   \<and> bufferDuration (settings five_minute_session) = 5
   \<and> bufferChunksRef five_minute_session = [\<lparr>data = blob_a, timestamp = 0, index = 0\<rparr>]
   \<and> bufferDuration (settings (updateSettings 120000 (BufferDuration 1) five_minute_session)) = 1
   \<and> bufferChunksRef (updateSettings 120000 (BufferDuration 1) five_minute_session) =
       [\<lparr>data = blob_a, timestamp = 0, index = 0\<rparr>]
   \<and> 120000 - timestamp \<lparr>data = blob_a, timestamp = 0, index = 0\<rparr>
       > maxAge (settings (updateSettings 120000 (BufferDuration 1) five_minute_session))"
proof -
  have "settings (updateSettings 120000 (BufferDuration 1) five_minute_session) =
      (settings five_minute_session)\<lparr>bufferDuration := 1\<rparr>"
    by (simp add: updateSettings_def Let_def cleanupOldBufferChunks_def)
  then show ?thesis
    by (simp add: five_minute_session_state update_buffer maxAge_def)
qed

section \<open>Starting a session\<close>

text \<open>
  C4, as stated, fails: \<open>startBackgroundRecording\<close> invoked on a session that is active
  and holds one chunk is not rejected; it empties the buffer and resets the counter.
\<close>

theorem second_start_clears_buffer:
  "backgroundRecording active_session
   \<and> bufferChunksRef active_session = [\<lparr>data = blob_a, timestamp = 0, index = 0\<rparr>]
   \<and> chunkIndexRef active_session = 1
   \<and> bufferChunksRef (startBackgroundRecording granted_env active_session) = []
   \<and> chunkIndexRef (startBackgroundRecording granted_env active_session) = 0
   \<and> error (startBackgroundRecording granted_env active_session) = None"
proof -
  have "error (startBackgroundRecording granted_env active_session) = None"
    by (rule start_granted [THEN conjunct2, THEN conjunct2, of _ "\<lparr>videoTracks = 1, audioTracks = 1\<rparr>"])
      (simp_all add: granted_env_def)
  then show ?thesis
    by (simp add: active_session_buffer start_clears_buffer)
qed

text \<open>
  C4, amended. \<open>startBackgroundRecording\<close> has no guard of its own against an active
  session: invoked while \<open>backgroundRecording\<close> is true, it clears the buffer and resets
  the counter to 0 before it asks for the capture source, and when the source is granted
  it installs the new stream and recorder. (Only the switch of the user interface keeps a
  second start away: it calls \<open>stopBackgroundRecording\<close> when the session is active.)
\<close>

theorem start_not_guarded:
  "backgroundRecording s \<longrightarrow>
     bufferChunksRef (startBackgroundRecording env s) = []
     \<and> chunkIndexRef (startBackgroundRecording env s) = 0
     \<and> (getDisplayMedia env = Inr stream \<and> 0 < videoTracks stream \<and> recorderWebm env = None
          \<and> recorderStart env = None \<longrightarrow>
        backgroundStreamRef (startBackgroundRecording env s) = Some stream
        \<and> backgroundRecorderRef (startBackgroundRecording env s) =
            Some (MediaRecorder stream (Some ''video/webm''))
        \<and> error (startBackgroundRecording env s) = None)"
  by (simp add: start_clears_buffer start_granted)

theorem start_not_guarded_witness:
  "backgroundRecording active_session
   \<and> bufferChunksRef active_session \<noteq> []
   \<and> getDisplayMedia granted_env = Inr \<lparr>videoTracks = 1, audioTracks = 1\<rparr>
   \<and> recorderWebm granted_env = None \<and> recorderStart granted_env = None
   \<and> bufferChunksRef (startBackgroundRecording granted_env active_session) = []
   \<and> chunkIndexRef (startBackgroundRecording granted_env active_session) = 0
   \<and> backgroundStreamRef (startBackgroundRecording granted_env active_session) =
       Some \<lparr>videoTracks = 1, audioTracks = 1\<rparr>
   \<and> backgroundRecorderRef (startBackgroundRecording granted_env active_session) =
       Some (MediaRecorder \<lparr>videoTracks = 1, audioTracks = 1\<rparr> (Some ''video/webm''))"
proof -
  have g: "getDisplayMedia granted_env = Inr \<lparr>videoTracks = 1, audioTracks = 1\<rparr>
     \<and> recorderWebm granted_env = None \<and> recorderStart granted_env = None"
    by (simp add: granted_env_def)
  from g active_session_buffer
    start_not_guarded [of active_session granted_env "\<lparr>videoTracks = 1, audioTracks = 1\<rparr>"]
  show ?thesis by simp
qed

text \<open>
  C5, as stated, fails: after screen sharing was ended from the browser the session is
  idle and the buffer still holds a chunk; a start attempt that is denied permission
  leaves the buffer empty and the counter at 0.
\<close>

theorem failed_start_clears_buffer:
  "\<not> backgroundRecording idle_with_data
   \<and> bufferChunksRef idle_with_data = [\<lparr>data = blob_a, timestamp = 0, index = 0\<rparr>]
   \<and> chunkIndexRef idle_with_data = 1
   \<and> getDisplayMedia denied_env = Inl (JsError ''NotAllowedError'' ''Permission denied'')
   \<and> bufferChunksRef (startBackgroundRecording denied_env idle_with_data) = []
   \<and> chunkIndexRef (startBackgroundRecording denied_env idle_with_data) = 0
   \<and> error (startBackgroundRecording denied_env idle_with_data) =
       Some ''Permission denied. Please allow screen sharing.''"
proof -
  have d: "getDisplayMedia denied_env = Inl (JsError ''NotAllowedError'' ''Permission denied'')"
    by (simp add: denied_env_def)
  have "error (startBackgroundRecording denied_env idle_with_data) =
       Some ''Permission denied. Please allow screen sharing.''"
    by (simp add: start_denied [OF d] start_failed_def Let_def stop_stream_buffer)
  with d show ?thesis
    by (simp add: idle_with_data_buffer start_clears_buffer)
qed

text \<open>
  C5, amended. When \<open>getDisplayMedia\<close> fails during start, the buffer is empty and the
  counter is 0 afterwards, because the start attempt clears them before it asks for the
  capture source; the error message is set, the session is not active and no stream is
  held. Buffer and counter are unchanged exactly when they were already empty and 0.
\<close>

theorem failed_start_leaves_empty_buffer:
  "getDisplayMedia env = Inl err \<longrightarrow>
     bufferChunksRef (startBackgroundRecording env s) = []
     \<and> chunkIndexRef (startBackgroundRecording env s) = 0
     \<and> \<not> backgroundRecording (startBackgroundRecording env s)
     \<and> error (startBackgroundRecording env s) \<noteq> None
     \<and> backgroundStreamRef (startBackgroundRecording env s) = None
     \<and> (bufferChunksRef s = [] \<and> chunkIndexRef s = 0 \<longrightarrow>
          bufferChunksRef (startBackgroundRecording env s) = bufferChunksRef s
          \<and> chunkIndexRef (startBackgroundRecording env s) = chunkIndexRef s)"
proof
  assume d: "getDisplayMedia env = Inl err"
  show "bufferChunksRef (startBackgroundRecording env s) = []
     \<and> chunkIndexRef (startBackgroundRecording env s) = 0
     \<and> \<not> backgroundRecording (startBackgroundRecording env s)
     \<and> error (startBackgroundRecording env s) \<noteq> None
     \<and> backgroundStreamRef (startBackgroundRecording env s) = None
     \<and> (bufferChunksRef s = [] \<and> chunkIndexRef s = 0 \<longrightarrow>
          bufferChunksRef (startBackgroundRecording env s) = bufferChunksRef s
          \<and> chunkIndexRef (startBackgroundRecording env s) = chunkIndexRef s)"
    using start_failed_buffer [of err
        "s\<lparr>error := None, bufferChunksRef := [], chunkIndexRef := 0, bufferTime := 0, bufferSize := 0\<rparr>"]
    by (simp add: start_denied [OF d])
qed

theorem failed_start_leaves_empty_buffer_witness:
  "getDisplayMedia denied_env = Inl (JsError ''NotAllowedError'' ''Permission denied'')
   \<and> bufferChunksRef (startBackgroundRecording denied_env idle_with_data) = []
   \<and> chunkIndexRef (startBackgroundRecording denied_env idle_with_data) = 0
   \<and> \<not> backgroundRecording (startBackgroundRecording denied_env idle_with_data)
   \<and> bufferChunksRef initial_recorder = [] \<and> chunkIndexRef initial_recorder = 0
   \<and> bufferChunksRef (startBackgroundRecording denied_env initial_recorder) =
       bufferChunksRef initial_recorder
   \<and> chunkIndexRef (startBackgroundRecording denied_env initial_recorder) =
       chunkIndexRef initial_recorder"
proof -
  have d: "getDisplayMedia denied_env = Inl (JsError ''NotAllowedError'' ''Permission denied'')"
    by (simp add: denied_env_def)
  have i: "bufferChunksRef initial_recorder = [] \<and> chunkIndexRef initial_recorder = 0"
    by (simp add: initial_recorder_def)
  from d i
    failed_start_leaves_empty_buffer [of denied_env "JsError ''NotAllowedError'' ''Permission denied''" idle_with_data]
    failed_start_leaves_empty_buffer [of denied_env "JsError ''NotAllowedError'' ''Permission denied''" initial_recorder]
  show ?thesis by simp
qed

end
